theory Spec2Isabelle
  imports Complex_Main
begin

section \<open>Motion control core of the robot (control.c)\<close>

text \<open>
  The embedding follows \<^verbatim>\<open>src/control.c\<close> function by function. The file-scope
  variables of the C file form one record; every function takes the record and returns
  the updated one. Values of C type \<^verbatim>\<open>float\<close> are modelled as \<^typ>\<open>real\<close>: arithmetic
  is exact, there is no rounding, no infinity and no NaN. The conversion of a
  \<^verbatim>\<open>float\<close> to \<^verbatim>\<open>int32_t\<close>, which C leaves undefined outside the range of the
  integer type, is a value of an error type.
\<close>

subsection \<open>Data\<close>

text \<open>
  The macros below come from headers of the firmware; they are parameters of the model.
\<close>

record build_constants =
  SYSTICK_FREQUENCY_HZ :: real
  DRIVER_PWM_PERIOD :: real
  MAX_MOTOR_DRIVER_SATURATION_PERIOD :: real

text \<open>\<^verbatim>\<open>struct control_constants\<close>, as read by \<^verbatim>\<open>motor_control\<close>.\<close>

record control_constants =
  kp_linear :: real
  kd_linear :: real
  kp_angular :: real
  kd_angular :: real
  kp_angular_side :: real
  kp_angular_front :: real
  kp_angular_diagonal :: real
  ki_angular_side :: real
  ki_angular_front :: real
  ki_angular_diagonal :: real

text \<open>
  Calls into the motor driver that command it, in the order they are made. The log
  \<open>driver_calls\<close> of the state below records them; it is the only field that is not a
  variable of the C file.
\<close>

datatype driver_call =
    Power_left int
  | Power_right int
  | Drive_off
  | Reset_motor_driver_saturation

record control_state =
  target_linear_speed :: real
  ideal_linear_speed :: real
  ideal_angular_speed :: real
  linear_error :: real
  angular_error :: real
  last_linear_error :: real
  last_angular_error :: real
  voltage_left :: real
  voltage_right :: real
  pwm_left :: int
  pwm_right :: int
  collision_detected_signal :: bool
  motor_control_enabled_signal :: bool
  side_sensors_close_control_enabled :: bool
  side_sensors_far_control_enabled :: bool
  front_sensors_control_enabled :: bool
  diagonal_sensors_control_enabled :: bool
  side_sensors_integral :: real
  front_sensors_integral :: real
  diagonal_sensors_integral :: real
  driver_calls :: "driver_call list"

text \<open>
  What the collaborators return when \<^verbatim>\<open>motor_control\<close> calls them during one tick.
  Each field is named after the function it stands for.
  \<^verbatim>\<open>get_motor_driver_input_voltage\<close> is called twice in a tick, once for each motor, so
  it has two readings. \<^verbatim>\<open>motor_driver_saturation\<close> is a count of ticks.
\<close>

record readings =
  get_linear_acceleration :: real
  get_linear_deceleration :: real
  get_side_sensors_close_error :: real
  get_side_sensors_far_error :: real
  get_front_sensors_error :: real
  get_diagonal_sensors_error :: real
  get_encoder_left_speed :: real
  get_encoder_right_speed :: real
  get_gyro_z_radps :: real
  get_control_constants :: control_constants
  get_motor_driver_input_voltage_left :: real
  get_motor_driver_input_voltage_right :: real
  motor_driver_saturation :: nat

datatype error = Undefined_conversion

subsection \<open>Voltage to PWM\<close>

text \<open>
  C converts a floating value to a signed integer by discarding the fractional part; the
  behaviour is undefined when the integral part does not fit the integer type.
\<close>

definition float_to_int32 :: "real \<Rightarrow> error + int" where
  "float_to_int32 x =
     (let t = (if 0 \<le> x then \<lfloor>x\<rfloor> else \<lceil>x\<rceil>)
      in if - (2 ^ 31) \<le> t \<and> t < 2 ^ 31 then Inr t else Inl Undefined_conversion)"

text \<open>
  \<^verbatim>\<open>voltage_to_motor_pwm\<close>, with the reading of the driver's input voltage as an
  argument. A floating division by zero gives an infinity or a NaN, whose conversion to
  an integer is undefined as well.
\<close>

definition voltage_to_motor_pwm :: "build_constants \<Rightarrow> real \<Rightarrow> real \<Rightarrow> error + int" where
  "voltage_to_motor_pwm c input_voltage voltage =
     (if input_voltage = 0 then Inl Undefined_conversion
      else float_to_int32 (voltage / input_voltage * DRIVER_PWM_PERIOD c))"

subsection \<open>Enable flags\<close>

definition side_sensors_close_control :: "bool \<Rightarrow> control_state \<Rightarrow> control_state" where
  "side_sensors_close_control v st = st\<lparr>side_sensors_close_control_enabled := v\<rparr>"

definition side_sensors_far_control :: "bool \<Rightarrow> control_state \<Rightarrow> control_state" where
  "side_sensors_far_control v st = st\<lparr>side_sensors_far_control_enabled := v\<rparr>"

definition diagonal_sensors_control :: "bool \<Rightarrow> control_state \<Rightarrow> control_state" where
  "diagonal_sensors_control v st = st\<lparr>diagonal_sensors_control_enabled := v\<rparr>"

definition front_sensors_control :: "bool \<Rightarrow> control_state \<Rightarrow> control_state" where
  "front_sensors_control v st = st\<lparr>front_sensors_control_enabled := v\<rparr>"

definition disable_walls_control :: "control_state \<Rightarrow> control_state" where
  "disable_walls_control st =
     front_sensors_control False
       (side_sensors_far_control False
         (side_sensors_close_control False st))"

subsection \<open>Collision signal\<close>

definition set_collision_detected :: "control_state \<Rightarrow> control_state" where
  "set_collision_detected st =
     st\<lparr>collision_detected_signal := True, motor_control_enabled_signal := False\<rparr>"

definition collision_detected :: "control_state \<Rightarrow> bool" where
  "collision_detected st = collision_detected_signal st"

definition reset_collision_detection :: "control_state \<Rightarrow> control_state" where
  "reset_collision_detection st =
     st\<lparr>collision_detected_signal := False,
        driver_calls := driver_calls st @ [Reset_motor_driver_saturation]\<rparr>"

subsection \<open>Reset and lifecycle\<close>

definition reset_control_errors :: "control_state \<Rightarrow> control_state" where
  "reset_control_errors st =
     st\<lparr>side_sensors_integral := 0,
        front_sensors_integral := 0,
        diagonal_sensors_integral := 0,
        linear_error := 0,
        angular_error := 0,
        last_linear_error := 0,
        last_angular_error := 0\<rparr>"

definition reset_control_speed :: "control_state \<Rightarrow> control_state" where
  "reset_control_speed st =
     st\<lparr>target_linear_speed := 0,
        ideal_linear_speed := 0,
        ideal_angular_speed := 0\<rparr>"

definition reset_control_all :: "control_state \<Rightarrow> control_state" where
  "reset_control_all st =
     reset_collision_detection (reset_control_speed (reset_control_errors st))"

definition enable_motor_control :: "control_state \<Rightarrow> control_state" where
  "enable_motor_control st = st\<lparr>motor_control_enabled_signal := True\<rparr>"

definition disable_motor_control :: "control_state \<Rightarrow> control_state" where
  "disable_motor_control st = st\<lparr>motor_control_enabled_signal := False\<rparr>"

definition drive_off :: "control_state \<Rightarrow> control_state" where
  "drive_off st = st\<lparr>driver_calls := driver_calls st @ [Drive_off]\<rparr>"

definition reset_motion :: "control_state \<Rightarrow> control_state" where
  "reset_motion st =
     reset_control_all (drive_off (disable_walls_control (disable_motor_control st)))"

subsection \<open>Measured speeds and setpoints\<close>

definition get_measured_linear_speed :: "readings \<Rightarrow> real" where
  "get_measured_linear_speed env =
     (get_encoder_left_speed env + get_encoder_right_speed env) / 2"

definition get_measured_angular_speed :: "readings \<Rightarrow> real" where
  "get_measured_angular_speed env = - get_gyro_z_radps env"

definition set_target_linear_speed :: "real \<Rightarrow> control_state \<Rightarrow> control_state" where
  "set_target_linear_speed speed st = st\<lparr>target_linear_speed := speed\<rparr>"

definition set_ideal_angular_speed :: "real \<Rightarrow> control_state \<Rightarrow> control_state" where
  "set_ideal_angular_speed speed st = st\<lparr>ideal_angular_speed := speed\<rparr>"

subsection \<open>Speed profile\<close>

definition update_ideal_linear_speed ::
  "build_constants \<Rightarrow> readings \<Rightarrow> control_state \<Rightarrow> control_state" where
  "update_ideal_linear_speed c env st =
     (if ideal_linear_speed st < target_linear_speed st then
        let st1 = st\<lparr>ideal_linear_speed :=
                      ideal_linear_speed st
                        + get_linear_acceleration env / SYSTICK_FREQUENCY_HZ c\<rparr>
        in if ideal_linear_speed st1 > target_linear_speed st1
           then st1\<lparr>ideal_linear_speed := target_linear_speed st1\<rparr>
           else st1
      else if ideal_linear_speed st > target_linear_speed st then
        let st1 = st\<lparr>ideal_linear_speed :=
                      ideal_linear_speed st
                        - get_linear_deceleration env / SYSTICK_FREQUENCY_HZ c\<rparr>
        in if ideal_linear_speed st1 < target_linear_speed st1
           then st1\<lparr>ideal_linear_speed := target_linear_speed st1\<rparr>
           else st1
      else st)"

subsection \<open>The tick\<close>

text \<open>
  The three feedback variables are locals of \<^verbatim>\<open>motor_control\<close>, initialised to zero at
  every call. \<open>sensors_feedback\<close> is the block of the four \<^verbatim>\<open>if\<close> statements on the
  enable flags: it returns the locals (side, front, diagonal) with the state.
\<close>

definition sensors_feedback ::
  "readings \<Rightarrow> control_state \<Rightarrow> (real \<times> real \<times> real) \<times> control_state" where
  "sensors_feedback env st =
     (let side0 = 0;
          front0 = 0;
          diagonal0 = 0;
          (side1, st1) =
            (if side_sensors_close_control_enabled st then
               let f = side0 + get_side_sensors_close_error env
               in (f, st\<lparr>side_sensors_integral := side_sensors_integral st + f\<rparr>)
             else (side0, st));
          (side2, st2) =
            (if side_sensors_far_control_enabled st1 then
               let f = side1 + get_side_sensors_far_error env
               in (f, st1\<lparr>side_sensors_integral := side_sensors_integral st1 + f\<rparr>)
             else (side1, st1));
          (front1, st3) =
            (if front_sensors_control_enabled st2 then
               let f = get_front_sensors_error env
               in (f, st2\<lparr>front_sensors_integral := front_sensors_integral st2 + f\<rparr>)
             else (front0, st2));
          (diagonal1, st4) =
            (if diagonal_sensors_control_enabled st3 then
               let f = get_diagonal_sensors_error env
               in (f, st3\<lparr>diagonal_sensors_integral := diagonal_sensors_integral st3 + f\<rparr>)
             else (diagonal0, st3))
      in ((side2, front1, diagonal1), st4))"

text \<open>The two running sums of the speed errors.\<close>

definition accumulate_errors :: "readings \<Rightarrow> control_state \<Rightarrow> control_state" where
  "accumulate_errors env st =
     (let st1 = st\<lparr>linear_error :=
                    linear_error st + (ideal_linear_speed st - get_measured_linear_speed env)\<rparr>
      in st1\<lparr>angular_error :=
               angular_error st1 + (ideal_angular_speed st1 - get_measured_angular_speed env)\<rparr>)"

text \<open>The feedback law: the locals \<^verbatim>\<open>linear_voltage\<close> and \<^verbatim>\<open>angular_voltage\<close>.\<close>

definition linear_voltage :: "control_constants \<Rightarrow> control_state \<Rightarrow> real" where
  "linear_voltage control st =
     kp_linear control * linear_error st
       + kd_linear control * (linear_error st - last_linear_error st)"

definition angular_voltage ::
  "control_constants \<Rightarrow> real \<times> real \<times> real \<Rightarrow> control_state \<Rightarrow> real" where
  "angular_voltage control fb st =
     (case fb of (side_sensors_feedback, front_sensors_feedback, diagonal_sensors_feedback) \<Rightarrow>
        kp_angular control * angular_error st
          + kd_angular control * (angular_error st - last_angular_error st)
          + kp_angular_side control * side_sensors_feedback
          + kp_angular_front control * front_sensors_feedback
          + kp_angular_diagonal control * diagonal_sensors_feedback
          + ki_angular_side control * side_sensors_integral st
          + ki_angular_front control * front_sensors_integral st
          + ki_angular_diagonal control * diagonal_sensors_integral st)"

text \<open>
  \<open>control_stage\<close> is \<^verbatim>\<open>motor_control\<close> after its gate and up to the two voltages: the
  speed profile, the wall loops, the error sums and the feedback law. It returns the
  locals with the state.
\<close>

definition control_stage ::
  "build_constants \<Rightarrow> readings \<Rightarrow> control_state
     \<Rightarrow> (real \<times> real \<times> real) \<times> real \<times> real \<times> control_state" where
  "control_stage c env st =
     (let st1 = update_ideal_linear_speed c env st;
          (fb, st2) = sensors_feedback env st1;
          st3 = accumulate_errors env st2;
          control = get_control_constants env
      in (fb, linear_voltage control st3, angular_voltage control fb st3, st3))"

definition motor_control ::
  "build_constants \<Rightarrow> readings \<Rightarrow> control_state \<Rightarrow> error + control_state" where
  "motor_control c env st =
     (if \<not> motor_control_enabled_signal st then Inr st
      else
        (case control_stage c env st of (fb, lin_v, ang_v, st3) \<Rightarrow>
          (let st4 = st3\<lparr>voltage_left := lin_v + ang_v\<rparr>;
               st5 = st4\<lparr>voltage_right := lin_v - ang_v\<rparr>
           in (case voltage_to_motor_pwm c (get_motor_driver_input_voltage_left env)
                       (voltage_left st5) of
                 Inl e \<Rightarrow> Inl e
               | Inr pl \<Rightarrow>
                  (let st6 = st5\<lparr>pwm_left := pl\<rparr>
                   in (case voltage_to_motor_pwm c (get_motor_driver_input_voltage_right env)
                               (voltage_right st6) of
                         Inl e \<Rightarrow> Inl e
                       | Inr pr \<Rightarrow>
                          (let st7 = st6\<lparr>pwm_right := pr\<rparr>;
                               st8 = st7\<lparr>driver_calls :=
                                           driver_calls st7
                                             @ [Power_left (pwm_left st7),
                                                Power_right (pwm_right st7)],
                                         last_linear_error := linear_error st7,
                                         last_angular_error := angular_error st7\<rparr>
                           in (if real (motor_driver_saturation env)
                                    > MAX_MOTOR_DRIVER_SATURATION_PERIOD c
                                        * SYSTICK_FREQUENCY_HZ c
                               then Inr (set_collision_detected st8)
                               else Inr st8))))))))"

text \<open>The scheduler calls \<^verbatim>\<open>motor_control\<close> once per tick; one reading per tick.\<close>

fun motor_control_ticks ::
  "build_constants \<Rightarrow> readings list \<Rightarrow> control_state \<Rightarrow> error + control_state" where
  "motor_control_ticks c [] st = Inr st"
| "motor_control_ticks c (env # envs) st =
     (case motor_control c env st of
        Inl e \<Rightarrow> Inl e
      | Inr st' \<Rightarrow> motor_control_ticks c envs st')"

subsection \<open>The specification's profiler step\<close>

text \<open>
  The step of the speed profiler as the specification words it, for a current speed \<open>I\<close>,
  a target \<open>T\<close> and the two increments per tick. It is compared below with
  \<open>update_ideal_linear_speed\<close>.
\<close>

definition profiler_step_spec :: "real \<Rightarrow> real \<Rightarrow> real \<Rightarrow> real \<Rightarrow> real" where
  "profiler_step_spec delta_up delta_dn I T =
     (if I < T then min (I + delta_up) T
      else if I > T then max (I - delta_dn) T
      else I)"

subsection \<open>Closed forms used in the proofs\<close>

text \<open>
  The value of the local \<^verbatim>\<open>side_sensors_feedback\<close> after the two side blocks.
\<close>

definition side_feedback_of :: "readings \<Rightarrow> control_state \<Rightarrow> real" where
  "side_feedback_of env st =
     (if side_sensors_close_control_enabled st then get_side_sensors_close_error env else 0)
       + (if side_sensors_far_control_enabled st then get_side_sensors_far_error env else 0)"

text \<open>
  The writes of \<^verbatim>\<open>motor_control\<close> after the feedback law, for given voltages and duties.
\<close>

definition finish_tick :: "real \<Rightarrow> real \<Rightarrow> int \<Rightarrow> int \<Rightarrow> control_state \<Rightarrow> control_state" where
  "finish_tick lv av pl pr s =
     s\<lparr>voltage_left := lv + av, voltage_right := lv - av, pwm_left := pl, pwm_right := pr,
       driver_calls := driver_calls s @ [Power_left pl, Power_right pr],
       last_linear_error := linear_error s, last_angular_error := angular_error s\<rparr>"

subsection \<open>Concrete inputs\<close>

text \<open>
  The state of the C file at start-up (static storage is zero-initialised), and the
  configuration of the specification's scenarios: a tick of 1 kHz, a PWM period of 1000,
  a saturation period of 10 ticks, a supply of 8 V, and side errors of 0.01.
\<close>

definition zero_state :: control_state where
  "zero_state =
     \<lparr>target_linear_speed = 0, ideal_linear_speed = 0, ideal_angular_speed = 0,
      linear_error = 0, angular_error = 0, last_linear_error = 0, last_angular_error = 0,
      voltage_left = 0, voltage_right = 0, pwm_left = 0, pwm_right = 0,
      collision_detected_signal = False, motor_control_enabled_signal = False,
      side_sensors_close_control_enabled = False, side_sensors_far_control_enabled = False,
      front_sensors_control_enabled = False, diagonal_sensors_control_enabled = False,
      side_sensors_integral = 0, front_sensors_integral = 0, diagonal_sensors_integral = 0,
      driver_calls = []\<rparr>"

definition scenario_constants :: build_constants where
  "scenario_constants =
     \<lparr>SYSTICK_FREQUENCY_HZ = 1000, DRIVER_PWM_PERIOD = 1000,
      MAX_MOTOR_DRIVER_SATURATION_PERIOD = 1 / 100\<rparr>"

definition scenario_gains :: control_constants where
  "scenario_gains =
     \<lparr>kp_linear = 10, kd_linear = 0, kp_angular = 0, kd_angular = 0,
      kp_angular_side = 1, kp_angular_front = 0, kp_angular_diagonal = 0,
      ki_angular_side = 1, ki_angular_front = 0, ki_angular_diagonal = 0\<rparr>"

definition scenario_readings :: readings where
  "scenario_readings =
     \<lparr>get_linear_acceleration = 2, get_linear_deceleration = 4,
      get_side_sensors_close_error = 1 / 100, get_side_sensors_far_error = 1 / 100,
      get_front_sensors_error = 0, get_diagonal_sensors_error = 0,
      get_encoder_left_speed = 0, get_encoder_right_speed = 0, get_gyro_z_radps = 0,
      get_control_constants = scenario_gains,
      get_motor_driver_input_voltage_left = 8, get_motor_driver_input_voltage_right = 8,
      motor_driver_saturation = 0\<rparr>"

text \<open>
  The start-up state after the planner has set a target of 1 m/s, enabled motor control
  and switched the side-close loop on.
\<close>

definition tracking_state :: control_state where
  "tracking_state =
     side_sensors_close_control True (enable_motor_control (set_target_linear_speed 1 zero_state))"


subsection \<open>Ticks of the speed profile alone\<close>


section \<open>Properties\<close>

subsection \<open>The stages of a tick\<close>

lemma update_ideal_linear_speed_eq:
  "update_ideal_linear_speed c env st =
     st\<lparr>ideal_linear_speed :=
          profiler_step_spec (get_linear_acceleration env / SYSTICK_FREQUENCY_HZ c)
            (get_linear_deceleration env / SYSTICK_FREQUENCY_HZ c)
            (ideal_linear_speed st) (target_linear_speed st)\<rparr>"
  by (simp add: update_ideal_linear_speed_def profiler_step_spec_def Let_def min_def max_def)

lemma sensors_feedback_eq:
  "sensors_feedback env st =
     ((side_feedback_of env st,
       (if front_sensors_control_enabled st then get_front_sensors_error env else 0),
       (if diagonal_sensors_control_enabled st then get_diagonal_sensors_error env else 0)),
      st\<lparr>side_sensors_integral :=
            side_sensors_integral st
              + (if side_sensors_close_control_enabled st then get_side_sensors_close_error env else 0)
              + (if side_sensors_far_control_enabled st then side_feedback_of env st else 0),
         front_sensors_integral :=
            front_sensors_integral st
              + (if front_sensors_control_enabled st then get_front_sensors_error env else 0),
         diagonal_sensors_integral :=
            diagonal_sensors_integral st
              + (if diagonal_sensors_control_enabled st then get_diagonal_sensors_error env else 0)\<rparr>)"
  by (simp add: sensors_feedback_def side_feedback_of_def Let_def)

lemma accumulate_errors_eq:
  "accumulate_errors env st =
     st\<lparr>linear_error :=
          linear_error st + (ideal_linear_speed st - get_measured_linear_speed env),
        angular_error :=
          angular_error st + (ideal_angular_speed st - get_measured_angular_speed env)\<rparr>"
  by (simp add: accumulate_errors_def Let_def)

lemma control_stage_state:
  assumes "control_stage c env st = (fb, lv, av, s3)"
  shows "s3 = accumulate_errors env (snd (sensors_feedback env (update_ideal_linear_speed c env st)))"
    and "fb = fst (sensors_feedback env (update_ideal_linear_speed c env st))"
    and "lv = linear_voltage (get_control_constants env) s3"
    and "av = angular_voltage (get_control_constants env) fb s3"
  using assms by (auto simp add: control_stage_def Let_def split: prod.splits)

lemma control_stage_frame:
  assumes "control_stage c env st = (fb, lv, av, s3)"
  shows "collision_detected_signal s3 = collision_detected_signal st"
    and "motor_control_enabled_signal s3 = motor_control_enabled_signal st"
    and "side_sensors_close_control_enabled s3 = side_sensors_close_control_enabled st"
    and "side_sensors_far_control_enabled s3 = side_sensors_far_control_enabled st"
    and "front_sensors_control_enabled s3 = front_sensors_control_enabled st"
    and "diagonal_sensors_control_enabled s3 = diagonal_sensors_control_enabled st"
    and "driver_calls s3 = driver_calls st"
    and "target_linear_speed s3 = target_linear_speed st"
    and "ideal_angular_speed s3 = ideal_angular_speed st"
    and "last_linear_error s3 = last_linear_error st"
    and "last_angular_error s3 = last_angular_error st"
  unfolding control_stage_state(1) [OF assms]
  by (simp_all add: accumulate_errors_eq sensors_feedback_eq update_ideal_linear_speed_eq)

lemma control_stage_feedback:
  assumes "control_stage c env st = ((side, front, diag), lv, av, s3)"
  shows "side = side_feedback_of env st"
    and "front = (if front_sensors_control_enabled st then get_front_sensors_error env else 0)"
    and "diag = (if diagonal_sensors_control_enabled st then get_diagonal_sensors_error env else 0)"
    and "side_sensors_integral s3 =
           side_sensors_integral st
             + (if side_sensors_close_control_enabled st then get_side_sensors_close_error env else 0)
             + (if side_sensors_far_control_enabled st then side_feedback_of env st else 0)"
    and "front_sensors_integral s3 = front_sensors_integral st + front"
    and "diagonal_sensors_integral s3 = diagonal_sensors_integral st + diag"
  using control_stage_state(1,2) [OF assms]
  by (simp_all add: accumulate_errors_eq sensors_feedback_eq update_ideal_linear_speed_eq
      side_feedback_of_def)


subsection \<open>The tick as a whole\<close>

lemma finish_tick_fields:
  "voltage_left (finish_tick lv av pl pr s) = lv + av"
  "voltage_right (finish_tick lv av pl pr s) = lv - av"
  "pwm_left (finish_tick lv av pl pr s) = pl"
  "pwm_right (finish_tick lv av pl pr s) = pr"
  "driver_calls (finish_tick lv av pl pr s) = driver_calls s @ [Power_left pl, Power_right pr]"
  "last_linear_error (finish_tick lv av pl pr s) = linear_error s"
  "last_angular_error (finish_tick lv av pl pr s) = angular_error s"
  "linear_error (finish_tick lv av pl pr s) = linear_error s"
  "angular_error (finish_tick lv av pl pr s) = angular_error s"
  "collision_detected_signal (finish_tick lv av pl pr s) = collision_detected_signal s"
  "motor_control_enabled_signal (finish_tick lv av pl pr s) = motor_control_enabled_signal s"
  "side_sensors_close_control_enabled (finish_tick lv av pl pr s) = side_sensors_close_control_enabled s"
  "side_sensors_far_control_enabled (finish_tick lv av pl pr s) = side_sensors_far_control_enabled s"
  "front_sensors_control_enabled (finish_tick lv av pl pr s) = front_sensors_control_enabled s"
  "diagonal_sensors_control_enabled (finish_tick lv av pl pr s) = diagonal_sensors_control_enabled s"
  "side_sensors_integral (finish_tick lv av pl pr s) = side_sensors_integral s"
  "front_sensors_integral (finish_tick lv av pl pr s) = front_sensors_integral s"
  "diagonal_sensors_integral (finish_tick lv av pl pr s) = diagonal_sensors_integral s"
  "target_linear_speed (finish_tick lv av pl pr s) = target_linear_speed s"
  "ideal_linear_speed (finish_tick lv av pl pr s) = ideal_linear_speed s"
  "ideal_angular_speed (finish_tick lv av pl pr s) = ideal_angular_speed s"
  by (simp_all add: finish_tick_def)

lemma set_collision_detected_fields:
  "collision_detected_signal (set_collision_detected s)"
  "\<not> motor_control_enabled_signal (set_collision_detected s)"
  "voltage_left (set_collision_detected s) = voltage_left s"
  "voltage_right (set_collision_detected s) = voltage_right s"
  "pwm_left (set_collision_detected s) = pwm_left s"
  "pwm_right (set_collision_detected s) = pwm_right s"
  "driver_calls (set_collision_detected s) = driver_calls s"
  "last_linear_error (set_collision_detected s) = last_linear_error s"
  "last_angular_error (set_collision_detected s) = last_angular_error s"
  "linear_error (set_collision_detected s) = linear_error s"
  "angular_error (set_collision_detected s) = angular_error s"
  "side_sensors_close_control_enabled (set_collision_detected s) = side_sensors_close_control_enabled s"
  "side_sensors_far_control_enabled (set_collision_detected s) = side_sensors_far_control_enabled s"
  "front_sensors_control_enabled (set_collision_detected s) = front_sensors_control_enabled s"
  "diagonal_sensors_control_enabled (set_collision_detected s) = diagonal_sensors_control_enabled s"
  "side_sensors_integral (set_collision_detected s) = side_sensors_integral s"
  "front_sensors_integral (set_collision_detected s) = front_sensors_integral s"
  "diagonal_sensors_integral (set_collision_detected s) = diagonal_sensors_integral s"
  "target_linear_speed (set_collision_detected s) = target_linear_speed s"
  "ideal_linear_speed (set_collision_detected s) = ideal_linear_speed s"
  "ideal_angular_speed (set_collision_detected s) = ideal_angular_speed s"
  by (simp_all add: set_collision_detected_def)

lemma motor_control_gated_off:
  "\<not> motor_control_enabled_signal st \<Longrightarrow> motor_control c env st = Inr st"
  by (simp add: motor_control_def)

lemma motor_control_active:
  assumes en: "motor_control_enabled_signal st"
    and cs: "control_stage c env st = (fb, lv, av, s3)"
  shows "motor_control c env st =
     (case voltage_to_motor_pwm c (get_motor_driver_input_voltage_left env) (lv + av) of
        Inl e \<Rightarrow> Inl e
      | Inr pl \<Rightarrow>
         (case voltage_to_motor_pwm c (get_motor_driver_input_voltage_right env) (lv - av) of
            Inl e \<Rightarrow> Inl e
          | Inr pr \<Rightarrow>
              if real (motor_driver_saturation env)
                   > MAX_MOTOR_DRIVER_SATURATION_PERIOD c * SYSTICK_FREQUENCY_HZ c
              then Inr (set_collision_detected (finish_tick lv av pl pr s3))
              else Inr (finish_tick lv av pl pr s3)))"
  using en cs
  by (simp add: motor_control_def finish_tick_def Let_def split: sum.splits)

lemma motor_control_run:
  assumes en: "motor_control_enabled_signal st"
    and cs: "control_stage c env st = (fb, lv, av, s3)"
    and run: "motor_control c env st = Inr st'"
  obtains pl pr where
    "voltage_to_motor_pwm c (get_motor_driver_input_voltage_left env) (lv + av) = Inr pl"
    "voltage_to_motor_pwm c (get_motor_driver_input_voltage_right env) (lv - av) = Inr pr"
    "st' = (if real (motor_driver_saturation env)
                  > MAX_MOTOR_DRIVER_SATURATION_PERIOD c * SYSTICK_FREQUENCY_HZ c
            then set_collision_detected (finish_tick lv av pl pr s3)
            else finish_tick lv av pl pr s3)"
  using run unfolding motor_control_active [OF en cs]
  by (auto split: sum.splits if_splits)

lemmas tick_eval =
  motor_control_def control_stage_def sensors_feedback_eq accumulate_errors_eq
  update_ideal_linear_speed_eq profiler_step_spec_def side_feedback_of_def
  linear_voltage_def angular_voltage_def voltage_to_motor_pwm_def float_to_int32_def
  get_measured_linear_speed_def get_measured_angular_speed_def set_collision_detected_def
  collision_detected_def enable_motor_control_def side_sensors_close_control_def
  side_sensors_far_control_def set_target_linear_speed_def
  scenario_constants_def scenario_readings_def scenario_gains_def zero_state_def
  tracking_state_def Let_def

subsection \<open>Reset of motion\<close>

lemma reset_motion_effect:
  "reset_motion st =
     st\<lparr>motor_control_enabled_signal := False,
        side_sensors_close_control_enabled := False,
        side_sensors_far_control_enabled := False,
        front_sensors_control_enabled := False,
        side_sensors_integral := 0, front_sensors_integral := 0, diagonal_sensors_integral := 0,
        linear_error := 0, angular_error := 0, last_linear_error := 0, last_angular_error := 0,
        target_linear_speed := 0, ideal_linear_speed := 0, ideal_angular_speed := 0,
        collision_detected_signal := False,
        driver_calls := driver_calls st @ [Drive_off, Reset_motor_driver_saturation]\<rparr>"
  by (simp add: reset_motion_def reset_control_all_def reset_collision_detection_def
      reset_control_speed_def reset_control_errors_def drive_off_def disable_walls_control_def
      front_sensors_control_def side_sensors_far_control_def side_sensors_close_control_def
      disable_motor_control_def)

text \<open>
  C1. The claim: after \<^verbatim>\<open>reset_motion\<close>, motor control and all four wall loops are
  disabled, \<^verbatim>\<open>drive_off\<close> has been called and the control state is zero. Evaluated from
  a state with motor control, the side-close loop and the diagonal loop enabled and a
  target of 1 m/s: \<^verbatim>\<open>reset_motion\<close> disables motor
  control and the side-close, side-far and front loops and calls \<^verbatim>\<open>drive_off\<close>, but the
  diagonal loop is still enabled afterwards, since \<^verbatim>\<open>disable_walls_control\<close> does not
  touch it.
\<close>

theorem reset_motion_leaves_diagonal_loop_enabled:
  "diagonal_sensors_control_enabled (reset_motion (diagonal_sensors_control True tracking_state))
   \<and> \<not> motor_control_enabled_signal (reset_motion (diagonal_sensors_control True tracking_state))
   \<and> \<not> side_sensors_close_control_enabled (reset_motion (diagonal_sensors_control True tracking_state))
   \<and> \<not> side_sensors_far_control_enabled (reset_motion (diagonal_sensors_control True tracking_state))
   \<and> \<not> front_sensors_control_enabled (reset_motion (diagonal_sensors_control True tracking_state))
   \<and> target_linear_speed (reset_motion (diagonal_sensors_control True tracking_state)) = 0
   \<and> driver_calls (reset_motion (diagonal_sensors_control True tracking_state))
       = [Drive_off, Reset_motor_driver_saturation]"
  by (simp add: reset_motion_effect diagonal_sensors_control_def tick_eval)

subsection \<open>Growth of the side integral\<close>

lemma side_close_only_tick:
  assumes en: "motor_control_enabled_signal st"
    and close: "side_sensors_close_control_enabled st"
    and far: "\<not> side_sensors_far_control_enabled st"
    and sat: "real (motor_driver_saturation env)
                \<le> MAX_MOTOR_DRIVER_SATURATION_PERIOD c * SYSTICK_FREQUENCY_HZ c"
    and run: "motor_control c env st = Inr st'"
  shows "side_sensors_integral st' = side_sensors_integral st + get_side_sensors_close_error env"
    and "motor_control_enabled_signal st'"
    and "side_sensors_close_control_enabled st'"
    and "\<not> side_sensors_far_control_enabled st'"
proof -
  obtain side front diag lv av s3 where
    cs: "control_stage c env st = ((side, front, diag), lv, av, s3)"
    by (cases "control_stage c env st") auto
  obtain pl pr where st': "st' = finish_tick lv av pl pr s3"
    using sat by (auto intro: motor_control_run [OF en cs run])
  show "side_sensors_integral st' = side_sensors_integral st + get_side_sensors_close_error env"
    using control_stage_feedback(4) [OF cs] close far
    by (simp add: st' finish_tick_fields)
  show "motor_control_enabled_signal st'" "side_sensors_close_control_enabled st'"
    "\<not> side_sensors_far_control_enabled st'"
    using control_stage_frame(2,3,4) [OF cs] en close far
    by (simp_all add: st' finish_tick_fields)
qed

lemma side_close_only_ticks:
  assumes "\<forall>env \<in> set envs.
             get_side_sensors_close_error env = e
             \<and> real (motor_driver_saturation env)
                 \<le> MAX_MOTOR_DRIVER_SATURATION_PERIOD c * SYSTICK_FREQUENCY_HZ c"
    and "motor_control_enabled_signal st"
    and "side_sensors_close_control_enabled st"
    and "\<not> side_sensors_far_control_enabled st"
    and "motor_control_ticks c envs st = Inr st'"
  shows "side_sensors_integral st' = side_sensors_integral st + e * real (length envs)"
  using assms
proof (induction envs arbitrary: st)
  case Nil
  then show ?case by simp
next
  case (Cons env envs)
  from Cons.prems(5) obtain st1 where
    one: "motor_control c env st = Inr st1" and rest: "motor_control_ticks c envs st1 = Inr st'"
    by (auto split: sum.splits)
  have sat: "real (motor_driver_saturation env)
                \<le> MAX_MOTOR_DRIVER_SATURATION_PERIOD c * SYSTICK_FREQUENCY_HZ c"
    and e: "get_side_sensors_close_error env = e"
    using Cons.prems(1) by simp_all
  note tick = side_close_only_tick [OF Cons.prems(2,3,4) sat one]
  have "side_sensors_integral st' = side_sensors_integral st1 + e * real (length envs)"
    using Cons.IH [OF _ tick(2,3,4) rest] Cons.prems(1) by simp
  then show ?case
    using tick(1) e by (simp add: algebra_simps)
qed

text \<open>
  C2, as amended. With motor control enabled, the side-close loop enabled and the
  side-far loop disabled, \<^verbatim>\<open>get_side_sensors_close_error\<close> returning the same value \<open>e\<close>
  at every tick and the saturation count never above the collision threshold, \<open>N\<close> ticks
  of \<^verbatim>\<open>motor_control\<close> that return add \<open>e * N\<close> to \<open>side_sensors_integral\<close>: the feedback
  added at each tick is a local of the tick, which starts from zero every time. From a
  zeroed state and with \<open>e = 0.01\<close> the integral is \<open>0.01 * N\<close>, which is 0.1 at
  \<open>N = 10\<close>.
\<close>

theorem side_close_integral_after_ticks:
  assumes "motor_control_enabled_signal st"
    and "side_sensors_close_control_enabled st"
    and "\<not> side_sensors_far_control_enabled st"
    and "\<forall>env \<in> set envs.
             get_side_sensors_close_error env = e
             \<and> real (motor_driver_saturation env)
                 \<le> MAX_MOTOR_DRIVER_SATURATION_PERIOD c * SYSTICK_FREQUENCY_HZ c"
    and "motor_control_ticks c envs st = Inr st'"
  shows "side_sensors_integral st' = side_sensors_integral st + e * real (length envs)"
  using assms(4,1,2,3,5) by (rule side_close_only_ticks)

lemma ten_ticks_run:
  "motor_control_ticks scenario_constants (replicate 10 scenario_readings) tracking_state
     = Inr (projr (motor_control_ticks scenario_constants (replicate 10 scenario_readings)
                     tracking_state))"
  by (simp add: tick_eval eval_nat_numeral)

theorem side_close_integral_after_ticks_witness:
  "side_sensors_integral tracking_state = 0
   \<and> map_sum id side_sensors_integral
       (motor_control_ticks scenario_constants (replicate 10 scenario_readings) tracking_state)
       = Inr (1 / 10)"
proof -
  let ?st' = "projr (motor_control_ticks scenario_constants (replicate 10 scenario_readings)
                     tracking_state)"
  have flags: "motor_control_enabled_signal tracking_state"
    "side_sensors_close_control_enabled tracking_state"
    "\<not> side_sensors_far_control_enabled tracking_state"
    by (simp_all add: tick_eval)
  have envs: "\<forall>env \<in> set (replicate 10 scenario_readings).
             get_side_sensors_close_error env = 1 / 100
             \<and> real (motor_driver_saturation env)
                 \<le> MAX_MOTOR_DRIVER_SATURATION_PERIOD scenario_constants
                     * SYSTICK_FREQUENCY_HZ scenario_constants"
    by (simp add: scenario_readings_def scenario_constants_def)
  have zero: "side_sensors_integral tracking_state = 0"
    by (simp add: tick_eval)
  have "side_sensors_integral ?st' = 1 / 10"
    using side_close_integral_after_ticks [OF flags envs ten_ticks_run] zero by simp
  then show ?thesis
    using zero by (subst ten_ticks_run) simp
qed

text \<open>
  The claim as stated gives \<open>0.01 * N * (N + 1) / 2\<close>, which is 0.55 at \<open>N = 10\<close>; ten
  ticks from the zeroed state give 0.1.
\<close>

theorem side_close_integral_counterexample:
  "motor_control_enabled_signal tracking_state
   \<and> side_sensors_close_control_enabled tracking_state
   \<and> side_sensors_integral tracking_state = 0
   \<and> get_side_sensors_close_error scenario_readings = 1 / 100
   \<and> map_sum id side_sensors_integral
       (motor_control_ticks scenario_constants (replicate 10 scenario_readings) tracking_state)
       = Inr (1 / 10)
   \<and> (1 / 10 :: real) \<noteq> 1 / 100 * 10 * (10 + 1) / 2"
  by (simp add: tick_eval eval_nat_numeral)

subsection \<open>Collision detection\<close>

text \<open>
  C3, as amended. In a tick that runs, if \<^verbatim>\<open>motor_driver_saturation\<close> returns a value
  strictly greater than \<open>MAX_MOTOR_DRIVER_SATURATION_PERIOD * SYSTICK_FREQUENCY_HZ\<close>, then
  after the tick \<^verbatim>\<open>collision_detected\<close> is true and motor control is disabled. If the
  value is at most that threshold, the tick leaves the collision signal as it was and
  motor control enabled.
\<close>

theorem saturation_above_threshold_latches_collision:
  assumes "motor_control_enabled_signal st"
    and "motor_control c env st = Inr st'"
  shows "(real (motor_driver_saturation env)
            > MAX_MOTOR_DRIVER_SATURATION_PERIOD c * SYSTICK_FREQUENCY_HZ c
          \<longrightarrow> collision_detected st' \<and> \<not> motor_control_enabled_signal st')
     \<and> (real (motor_driver_saturation env)
            \<le> MAX_MOTOR_DRIVER_SATURATION_PERIOD c * SYSTICK_FREQUENCY_HZ c
          \<longrightarrow> collision_detected st' = collision_detected st \<and> motor_control_enabled_signal st')"
proof -
  obtain fb lv av s3 where cs: "control_stage c env st = (fb, lv, av, s3)"
    by (cases "control_stage c env st") auto
  obtain pl pr where
    st': "st' = (if real (motor_driver_saturation env)
                  > MAX_MOTOR_DRIVER_SATURATION_PERIOD c * SYSTICK_FREQUENCY_HZ c
            then set_collision_detected (finish_tick lv av pl pr s3)
            else finish_tick lv av pl pr s3)"
    using assms(1) cs assms(2) by (rule motor_control_run)
  show ?thesis
    using assms(1)
    by (simp add: st' collision_detected_def set_collision_detected_fields finish_tick_fields
        control_stage_frame [OF cs])
qed

theorem saturation_above_threshold_latches_collision_witness:
  "real (motor_driver_saturation (scenario_readings\<lparr>motor_driver_saturation := 11\<rparr>))
     > MAX_MOTOR_DRIVER_SATURATION_PERIOD scenario_constants
         * SYSTICK_FREQUENCY_HZ scenario_constants
   \<and> map_sum id collision_detected
        (motor_control scenario_constants (scenario_readings\<lparr>motor_driver_saturation := 11\<rparr>)
           tracking_state) = Inr True
   \<and> map_sum id motor_control_enabled_signal
        (motor_control scenario_constants (scenario_readings\<lparr>motor_driver_saturation := 11\<rparr>)
           tracking_state) = Inr False
   \<and> real (motor_driver_saturation (scenario_readings\<lparr>motor_driver_saturation := 9\<rparr>))
     \<le> MAX_MOTOR_DRIVER_SATURATION_PERIOD scenario_constants
         * SYSTICK_FREQUENCY_HZ scenario_constants
   \<and> map_sum id collision_detected
        (motor_control scenario_constants (scenario_readings\<lparr>motor_driver_saturation := 9\<rparr>)
           tracking_state) = Inr (collision_detected tracking_state)
   \<and> map_sum id motor_control_enabled_signal
        (motor_control scenario_constants (scenario_readings\<lparr>motor_driver_saturation := 9\<rparr>)
           tracking_state) = Inr True"
proof -
  let ?hi = "scenario_readings\<lparr>motor_driver_saturation := 11\<rparr>"
  let ?lo = "scenario_readings\<lparr>motor_driver_saturation := 9\<rparr>"
  let ?st_hi = "projr (motor_control scenario_constants ?hi tracking_state)"
  let ?st_lo = "projr (motor_control scenario_constants ?lo tracking_state)"
  have en: "motor_control_enabled_signal tracking_state"
    by (simp add: tick_eval)
  have run_hi: "motor_control scenario_constants ?hi tracking_state = Inr ?st_hi"
    by (simp add: tick_eval)
  have run_lo: "motor_control scenario_constants ?lo tracking_state = Inr ?st_lo"
    by (simp add: tick_eval)
  have above: "real (motor_driver_saturation ?hi)
     > MAX_MOTOR_DRIVER_SATURATION_PERIOD scenario_constants
         * SYSTICK_FREQUENCY_HZ scenario_constants"
    by (simp add: scenario_constants_def)
  have below: "real (motor_driver_saturation ?lo)
     \<le> MAX_MOTOR_DRIVER_SATURATION_PERIOD scenario_constants
         * SYSTICK_FREQUENCY_HZ scenario_constants"
    by (simp add: scenario_constants_def)
  have hi: "collision_detected ?st_hi \<and> \<not> motor_control_enabled_signal ?st_hi"
    using saturation_above_threshold_latches_collision [OF en run_hi] above by blast
  have lo: "collision_detected ?st_lo = collision_detected tracking_state
      \<and> motor_control_enabled_signal ?st_lo"
    using saturation_above_threshold_latches_collision [OF en run_lo] below by blast
  have "map_sum id collision_detected (motor_control scenario_constants ?hi tracking_state)
          = Inr True
      \<and> map_sum id motor_control_enabled_signal
          (motor_control scenario_constants ?hi tracking_state) = Inr False"
    using hi by (subst (1 2) run_hi) simp
  moreover have "map_sum id collision_detected
          (motor_control scenario_constants ?lo tracking_state)
          = Inr (collision_detected tracking_state)
      \<and> map_sum id motor_control_enabled_signal
          (motor_control scenario_constants ?lo tracking_state) = Inr True"
    using lo by (subst (1 2) run_lo) simp
  ultimately show ?thesis
    using above below by blast
qed

text \<open>
  The claim as stated, with a value greater than or equal to the threshold, fails at
  equality: ten ticks of saturation against a threshold of ten.
\<close>

theorem saturation_at_threshold_counterexample:
  "real (motor_driver_saturation (scenario_readings\<lparr>motor_driver_saturation := 10\<rparr>))
     \<ge> MAX_MOTOR_DRIVER_SATURATION_PERIOD scenario_constants
         * SYSTICK_FREQUENCY_HZ scenario_constants
   \<and> motor_control_enabled_signal tracking_state
   \<and> map_sum id collision_detected
        (motor_control scenario_constants (scenario_readings\<lparr>motor_driver_saturation := 10\<rparr>)
           tracking_state) = Inr False
   \<and> map_sum id motor_control_enabled_signal
        (motor_control scenario_constants (scenario_readings\<lparr>motor_driver_saturation := 10\<rparr>)
           tracking_state) = Inr True"
  by (simp add: tick_eval)

subsection \<open>The gate of the tick\<close>

text \<open>
  C4. When \<open>motor_control_enabled_signal\<close> is false, \<^verbatim>\<open>motor_control\<close> returns the state
  it was given: no voltage, duty, error, integral or speed is written and the log of
  driver calls is unchanged (no \<^verbatim>\<open>power_left\<close>, \<^verbatim>\<open>power_right\<close> or \<^verbatim>\<open>drive_off\<close>). The
  same holds for any number of ticks in a row.
\<close>

theorem gated_off_tick_is_noop:
  assumes "\<not> motor_control_enabled_signal st"
  shows "motor_control c env st = Inr st \<and> motor_control_ticks c envs st = Inr st"
proof -
  have one: "motor_control c e st = Inr st" for e
    using assms by (simp add: motor_control_def)
  have "motor_control_ticks c envs st = Inr st"
    by (induction envs) (simp_all add: one)
  with one show ?thesis by simp
qed

theorem gated_off_tick_is_noop_witness:
  "\<not> motor_control_enabled_signal (set_target_linear_speed 1 zero_state)
   \<and> motor_control scenario_constants scenario_readings (set_target_linear_speed 1 zero_state)
       = Inr (set_target_linear_speed 1 zero_state)
   \<and> driver_calls (set_target_linear_speed 1 zero_state) = []"
  using gated_off_tick_is_noop
    [of "set_target_linear_speed 1 zero_state" scenario_constants scenario_readings "[]"]
  by (simp add: set_target_linear_speed_def zero_state_def)

subsection \<open>The speed profile\<close>















subsection \<open>The voltage split\<close>



subsection \<open>Disabled wall loops\<close>

text \<open>
  C7, as amended. In a tick of \<^verbatim>\<open>motor_control\<close>: a disabled front loop leaves the front
  feedback at 0 and \<open>front_sensors_integral\<close> unchanged, and likewise for the diagonal
  loop. The side-close and side-far loops share one feedback and one integral: with both
  disabled the side feedback is 0 and \<open>side_sensors_integral\<close> is unchanged; with one of
  them disabled and the other enabled, in a tick that runs, the side feedback is the
  error of the enabled loop alone and \<open>side_sensors_integral\<close> grows by exactly that
  error, so the disabled loop adds nothing.
\<close>

theorem disabled_wall_loop_adds_nothing:
  assumes "control_stage c env st = ((side, front, diag), lv, av, s3)"
    and "motor_control c env st = Inr st'"
  shows "(\<not> front_sensors_control_enabled st \<longrightarrow>
            front = 0 \<and> front_sensors_integral st' = front_sensors_integral st)
     \<and> (\<not> diagonal_sensors_control_enabled st \<longrightarrow>
            diag = 0 \<and> diagonal_sensors_integral st' = diagonal_sensors_integral st)
     \<and> (\<not> side_sensors_close_control_enabled st \<and> \<not> side_sensors_far_control_enabled st \<longrightarrow>
            side = 0 \<and> side_sensors_integral st' = side_sensors_integral st)
     \<and> (\<not> side_sensors_close_control_enabled st \<and> side_sensors_far_control_enabled st
          \<and> motor_control_enabled_signal st \<longrightarrow>
            side = get_side_sensors_far_error env
            \<and> side_sensors_integral st' = side_sensors_integral st + get_side_sensors_far_error env)
     \<and> (side_sensors_close_control_enabled st \<and> \<not> side_sensors_far_control_enabled st
          \<and> motor_control_enabled_signal st \<longrightarrow>
            side = get_side_sensors_close_error env
            \<and> side_sensors_integral st' = side_sensors_integral st + get_side_sensors_close_error env)"
proof (cases "motor_control_enabled_signal st")
  case False
  then have "st' = st"
    using assms(2) by (simp add: motor_control_gated_off)
  then show ?thesis
    using False control_stage_feedback(1,2,3) [OF assms(1)]
    by (simp add: side_feedback_of_def)
next
  case True
  obtain pl pr where
    st': "st' = (if real (motor_driver_saturation env)
                  > MAX_MOTOR_DRIVER_SATURATION_PERIOD c * SYSTICK_FREQUENCY_HZ c
            then set_collision_detected (finish_tick lv av pl pr s3)
            else finish_tick lv av pl pr s3)"
    using True assms by (rule motor_control_run)
  have "side_sensors_integral st' = side_sensors_integral s3"
    "front_sensors_integral st' = front_sensors_integral s3"
    "diagonal_sensors_integral st' = diagonal_sensors_integral s3"
    by (simp_all add: st' set_collision_detected_fields finish_tick_fields)
  then show ?thesis
    using control_stage_feedback [OF assms(1)]
    by (simp add: side_feedback_of_def)
qed

theorem disabled_wall_loop_adds_nothing_witness:
  "map_sum id front_sensors_integral
        (motor_control scenario_constants scenario_readings tracking_state)
        = Inr (front_sensors_integral tracking_state)
   \<and> map_sum id diagonal_sensors_integral
        (motor_control scenario_constants scenario_readings tracking_state)
        = Inr (diagonal_sensors_integral tracking_state)
   \<and> map_sum id side_sensors_integral
        (motor_control scenario_constants scenario_readings tracking_state)
        = Inr (side_sensors_integral tracking_state
                 + get_side_sensors_close_error scenario_readings)
   \<and> map_sum id side_sensors_integral
        (motor_control scenario_constants scenario_readings
           (side_sensors_far_control True (side_sensors_close_control False tracking_state)))
        = Inr (side_sensors_integral tracking_state
                 + get_side_sensors_far_error scenario_readings)
   \<and> map_sum id side_sensors_integral
        (motor_control scenario_constants scenario_readings
           (side_sensors_close_control False tracking_state))
        = Inr (side_sensors_integral tracking_state)"
proof -
  let ?c = scenario_constants and ?env = scenario_readings
  let ?far = "side_sensors_far_control True (side_sensors_close_control False tracking_state)"
  let ?off = "side_sensors_close_control False tracking_state"
  have cs1: "control_stage ?c ?env tracking_state
      = ((1 / 100, 0, 0), 1 / 50, 1 / 50, snd (snd (snd (control_stage ?c ?env tracking_state))))"
    by (simp add: tick_eval)
  have cs2: "control_stage ?c ?env ?far
      = ((1 / 100, 0, 0), 1 / 50, 1 / 50, snd (snd (snd (control_stage ?c ?env ?far))))"
    by (simp add: tick_eval)
  have cs3: "control_stage ?c ?env ?off
      = ((0, 0, 0), 1 / 50, 0, snd (snd (snd (control_stage ?c ?env ?off))))"
    by (simp add: tick_eval)
  have run1: "motor_control ?c ?env tracking_state
      = Inr (projr (motor_control ?c ?env tracking_state))"
    by (simp add: tick_eval)
  have run2: "motor_control ?c ?env ?far = Inr (projr (motor_control ?c ?env ?far))"
    by (simp add: tick_eval)
  have run3: "motor_control ?c ?env ?off = Inr (projr (motor_control ?c ?env ?off))"
    by (simp add: tick_eval)
  have flags1: "\<not> front_sensors_control_enabled tracking_state"
    "\<not> diagonal_sensors_control_enabled tracking_state"
    "side_sensors_close_control_enabled tracking_state"
    "\<not> side_sensors_far_control_enabled tracking_state"
    "motor_control_enabled_signal tracking_state"
    by (simp_all add: tick_eval)
  have flags2: "\<not> side_sensors_close_control_enabled ?far"
    "side_sensors_far_control_enabled ?far" "motor_control_enabled_signal ?far"
    "side_sensors_integral ?far = side_sensors_integral tracking_state"
    by (simp_all add: tick_eval)
  have flags3: "\<not> side_sensors_close_control_enabled ?off"
    "\<not> side_sensors_far_control_enabled ?off"
    "side_sensors_integral ?off = side_sensors_integral tracking_state"
    by (simp_all add: tick_eval)
  have r1: "front_sensors_integral (projr (motor_control ?c ?env tracking_state))
        = front_sensors_integral tracking_state"
    "diagonal_sensors_integral (projr (motor_control ?c ?env tracking_state))
        = diagonal_sensors_integral tracking_state"
    "side_sensors_integral (projr (motor_control ?c ?env tracking_state))
        = side_sensors_integral tracking_state + get_side_sensors_close_error ?env"
    using disabled_wall_loop_adds_nothing [OF cs1 run1] flags1 by simp_all
  have r2: "side_sensors_integral (projr (motor_control ?c ?env ?far))
        = side_sensors_integral tracking_state + get_side_sensors_far_error ?env"
    using disabled_wall_loop_adds_nothing [OF cs2 run2] flags2 by simp
  have r3: "side_sensors_integral (projr (motor_control ?c ?env ?off))
        = side_sensors_integral tracking_state"
    using disabled_wall_loop_adds_nothing [OF cs3 run3] flags3 by simp
  have "map_sum id front_sensors_integral (motor_control ?c ?env tracking_state)
        = Inr (front_sensors_integral tracking_state)"
    by (subst run1) (simp add: r1)
  moreover have "map_sum id diagonal_sensors_integral (motor_control ?c ?env tracking_state)
        = Inr (diagonal_sensors_integral tracking_state)"
    by (subst run1) (simp add: r1)
  moreover have "map_sum id side_sensors_integral (motor_control ?c ?env tracking_state)
        = Inr (side_sensors_integral tracking_state + get_side_sensors_close_error ?env)"
    by (subst run1) (simp add: r1)
  moreover have "map_sum id side_sensors_integral (motor_control ?c ?env ?far)
        = Inr (side_sensors_integral tracking_state + get_side_sensors_far_error ?env)"
    by (subst run2) (simp add: r2)
  moreover have "map_sum id side_sensors_integral (motor_control ?c ?env ?off)
        = Inr (side_sensors_integral tracking_state)"
    by (subst run3) (simp add: r3)
  ultimately show ?thesis by blast
qed

text \<open>
  The claim as stated fails for a side loop: with side-close disabled and side-far
  enabled, the integral of the side loops changes from 0 to 0.01 in one tick.
\<close>

theorem side_close_disabled_integral_counterexample:
  "motor_control_enabled_signal
     (side_sensors_far_control True (side_sensors_close_control False tracking_state))
   \<and> \<not> side_sensors_close_control_enabled
         (side_sensors_far_control True (side_sensors_close_control False tracking_state))
   \<and> side_sensors_integral
        (side_sensors_far_control True (side_sensors_close_control False tracking_state)) = 0
   \<and> map_sum id side_sensors_integral
        (motor_control scenario_constants scenario_readings
           (side_sensors_far_control True (side_sensors_close_control False tracking_state)))
        = Inr (1 / 100)"
  by (simp add: tick_eval)

subsection \<open>Voltage to PWM duty\<close>





subsection \<open>The tick and the collision signal\<close>



subsection \<open>Reset of the collision signal\<close>

text \<open>
  C10. \<^verbatim>\<open>reset_collision_detection\<close> clears the collision signal and calls
  \<^verbatim>\<open>reset_motor_driver_saturation\<close>, and nothing else: \<open>motor_control_enabled_signal\<close>
  keeps its value (so motor control is not enabled again after a collision), and so do
  the setpoints, errors, integrals, enable flags and outputs.
\<close>

theorem reset_collision_detection_frame:
  "\<not> collision_detected (reset_collision_detection st)
   \<and> driver_calls (reset_collision_detection st) = driver_calls st @ [Reset_motor_driver_saturation]
   \<and> motor_control_enabled_signal (reset_collision_detection st) = motor_control_enabled_signal st
   \<and> target_linear_speed (reset_collision_detection st) = target_linear_speed st
   \<and> ideal_linear_speed (reset_collision_detection st) = ideal_linear_speed st
   \<and> ideal_angular_speed (reset_collision_detection st) = ideal_angular_speed st
   \<and> linear_error (reset_collision_detection st) = linear_error st
   \<and> angular_error (reset_collision_detection st) = angular_error st
   \<and> last_linear_error (reset_collision_detection st) = last_linear_error st
   \<and> last_angular_error (reset_collision_detection st) = last_angular_error st
   \<and> voltage_left (reset_collision_detection st) = voltage_left st
   \<and> voltage_right (reset_collision_detection st) = voltage_right st
   \<and> pwm_left (reset_collision_detection st) = pwm_left st
   \<and> pwm_right (reset_collision_detection st) = pwm_right st
   \<and> side_sensors_close_control_enabled (reset_collision_detection st)
       = side_sensors_close_control_enabled st
   \<and> side_sensors_far_control_enabled (reset_collision_detection st)
       = side_sensors_far_control_enabled st
   \<and> front_sensors_control_enabled (reset_collision_detection st)
       = front_sensors_control_enabled st
   \<and> diagonal_sensors_control_enabled (reset_collision_detection st)
       = diagonal_sensors_control_enabled st
   \<and> side_sensors_integral (reset_collision_detection st) = side_sensors_integral st
   \<and> front_sensors_integral (reset_collision_detection st) = front_sensors_integral st
   \<and> diagonal_sensors_integral (reset_collision_detection st) = diagonal_sensors_integral st"
  by (simp add: reset_collision_detection_def collision_detected_def)

end
